theory Spec2Isabelle
  imports Main "HOL-Library.Word"
begin

unbundle bit_operations_syntax

chapter \<open>Lume: engines, helpers and the render dispatcher\<close>

text \<open>
  A shallow embedding of the parts of the Lume static site generator that its
  specification makes claims about: the \<open>lightningcss\<close> version packing, the
  \<open>attr\<close> helper of the attributes plugin, the compiled-template caches of the
  Liquid, Pug and JSX engines, the CMS watch bridge, the render dispatcher and the
  date parser. Definitions come first, theorems afterwards.
\<close>

section \<open>Definitions\<close>

subsection \<open>JavaScript values\<close>

text \<open>
  Values of type \<open>unknown\<close> are a tagged union. Numbers are integer-valued
  (\<open>JNum\<close>); an object is the list of its own enumerable entries in the order of
  \<open>Object.entries\<close>; \<open>JSet\<close> is a \<open>Set<string>\<close> in insertion order.
  A thrown exception is an \<open>error\<close> value on the left of a sum.
\<close>

datatype error = TypeError | Thrown string

datatype jsval =
    JUndefined
  | JNull
  | JBool bool
  | JNum int
  | JStr string
  | JArr "jsval list"
  | JObj "(string \<times> jsval) list"
  | JSet "string list"

text \<open>The truthiness test of \<open>if (x)\<close> and \<open>!x\<close>.\<close>

fun truthy :: "jsval \<Rightarrow> bool" where
  "truthy JUndefined = False"
| "truthy JNull = False"
| "truthy (JBool b) = b"
| "truthy (JNum n) = (n \<noteq> 0)"
| "truthy (JStr s) = (s \<noteq> [])"
| "truthy (JArr vs) = True"
| "truthy (JObj es) = True"
| "truthy (JSet cs) = True"

text \<open>\<open>Array.prototype.join\<close> on an array of strings.\<close>

fun joinWith :: "string \<Rightarrow> string list \<Rightarrow> string" where
  "joinWith sep [] = []"
| "joinWith sep [x] = x"
| "joinWith sep (x # y # ys) = x @ sep @ joinWith sep (y # ys)"

text \<open>
  String conversion, as string concatenation applies it to its operand: decimal
  digits for an integer, elements of an array joined by commas with \<open>null\<close> and
  \<open>undefined\<close> elements printed as the empty string.
\<close>

function showNat :: "nat \<Rightarrow> string" where
  "showNat n =
     (if n < 10 then [char_of (48 + n)]
      else showNat (n div 10) @ [char_of (48 + n mod 10)])"
  by pat_completeness auto
termination
  by (relation "measure id") auto

definition showInt :: "int \<Rightarrow> string" where
  "showInt i = (if i < 0 then ''-'' @ showNat (nat (- i)) else showNat (nat i))"

fun toString :: "jsval \<Rightarrow> string"
  and elementToString :: "jsval \<Rightarrow> string" where
  "toString JUndefined = ''undefined''"
| "toString JNull = ''null''"
| "toString (JBool b) = (if b then ''true'' else ''false'')"
| "toString (JNum n) = showInt n"
| "toString (JStr s) = s"
| "toString (JArr vs) = joinWith '','' (map elementToString vs)"
| "toString (JObj es) = ''[object Object]''"
| "toString (JSet cs) = ''[object Set]''"
| "elementToString JUndefined = []"
| "elementToString JNull = []"
| "elementToString (JBool b) = toString (JBool b)"
| "elementToString (JNum n) = toString (JNum n)"
| "elementToString (JStr s) = toString (JStr s)"
| "elementToString (JArr vs) = toString (JArr vs)"
| "elementToString (JObj es) = toString (JObj es)"
| "elementToString (JSet cs) = toString (JSet cs)"

text \<open>
  \<open>String.prototype.toUpperCase\<close> on the ASCII letters; a \<open>char\<close> is a byte, and
  bytes outside \<open>a\<close>..\<open>z\<close> are left as they are.
\<close>

definition toUpperChar :: "char \<Rightarrow> char" where
  "toUpperChar c =
     (let n = (of_char c :: nat) in if 97 \<le> n \<and> n \<le> 122 then char_of (n - 32) else c)"

definition toUpperCase :: "string \<Rightarrow> string" where
  "toUpperCase s = map toUpperChar s"

subsection \<open>JavaScript 32-bit integer operators\<close>

text \<open>
  The bitwise operators of JavaScript convert each operand with \<open>ToInt32\<close>
  (reduction modulo \<open>2^32\<close> into the signed range), mask a shift count with 31,
  and return a signed 32-bit result.
\<close>

definition toInt32 :: "int \<Rightarrow> int" where
  "toInt32 x = signed_take_bit 31 x"

definition js_shl :: "int \<Rightarrow> int \<Rightarrow> int" where
  "js_shl a b = toInt32 (push_bit (nat (b mod 32)) (toInt32 a))"

definition js_or :: "int \<Rightarrow> int \<Rightarrow> int" where
  "js_or a b = toInt32 (toInt32 a OR toInt32 b)"

subsection \<open>lightningcss plugin: \<open>version\<close>\<close>

text \<open>
  \<^verbatim>\<open>export function version(major: number, minor = 0, patch = 0): number {
    return (major << 16) | (minor << 8) | patch;
  }\<close>
  An omitted argument is \<open>None\<close>; the default applies to it.
\<close>

definition defaultArg :: "int \<Rightarrow> int option \<Rightarrow> int" where
  "defaultArg d a = (case a of None \<Rightarrow> d | Some v \<Rightarrow> v)"

definition version :: "int \<Rightarrow> int option \<Rightarrow> int option \<Rightarrow> int" where
  "version major minor patch =
     js_or (js_or (js_shl major 16) (js_shl (defaultArg 0 minor) 8)) (defaultArg 0 patch)"

subsection \<open>attributes plugin: \<open>attr\<close> and \<open>class\<close>\<close>

text \<open>
  The attribute \<open>Map<string, unknown>\<close> is an association list in insertion order:
  \<open>set\<close> on an existing key keeps the key's position, on a new key appends.
  \<open>get\<close> on a missing key is \<open>undefined\<close>.
\<close>

type_synonym attrmap = "(string \<times> jsval) list"

fun mapGet :: "attrmap \<Rightarrow> string \<Rightarrow> jsval" where
  "mapGet [] k = JUndefined"
| "mapGet ((k', v) # m) k = (if k' = k then v else mapGet m k)"

fun mapSet :: "attrmap \<Rightarrow> string \<Rightarrow> jsval \<Rightarrow> attrmap" where
  "mapSet [] k v = [(k, v)]"
| "mapSet ((k', v') # m) k v = (if k' = k then (k, v) # m else (k', v') # mapSet m k v)"

text \<open>
  \<^verbatim>\<open>const escapeChars = { "&": "&amp;", "<": "&lt;", ">": "&gt;", '"': "&#34;", "'": "&#39;" };
  function escape(value: string) {
    return value.replace(/[&<>'"]/g, (match) => escapeChars[match]);
  }\<close>
  The double quote is \<open>CHR 0x22\<close> and the single quote \<open>CHR 0x27\<close>. Every
  character of the class is replaced by what the table holds for it; a match the
  table lacks would print as \<open>undefined\<close>.
\<close>

definition escapeChars :: "(char \<times> string) list" where
  "escapeChars =
     [(CHR ''&'', ''&amp;''), (CHR ''<'', ''&lt;''), (CHR ''>'', ''&gt;''),
      (CHR 0x22, ''&#34;''), (CHR 0x27, ''&#39;'')]"

definition escapeClass :: "char list" where
  "escapeClass = [CHR ''&'', CHR ''<'', CHR ''>'', CHR 0x27, CHR 0x22]"

definition escapeMatch :: "char \<Rightarrow> string" where
  "escapeMatch c = (case map_of escapeChars c of Some r \<Rightarrow> r | None \<Rightarrow> ''undefined'')"

fun escape :: "string \<Rightarrow> string" where
  "escape [] = []"
| "escape (c # cs) = (if c \<in> set escapeClass then escapeMatch c else [c]) @ escape cs"

text \<open>
  \<^verbatim>\<open>function isValid(name: string, validNames: string[]) {
    return name && (!validNames.length || validNames.includes(name));
  }\<close>
\<close>

definition isValid :: "string \<Rightarrow> string list \<Rightarrow> bool" where
  "isValid name validNames \<longleftrightarrow> name \<noteq> [] \<and> (validNames = [] \<or> name \<in> set validNames)"

text \<open>
  \<open>classes.add(x)\<close>: on a \<open>Set\<close> it appends \<open>x\<close> unless present. The class list
  that \<open>handleAttributes\<close> passes may be the value \<open>true\<close> stored under
  \<open>"class"\<close> by a plain string; \<open>add\<close> is then not a function and the call throws.
\<close>

fun classesAdd :: "jsval \<Rightarrow> string \<Rightarrow> error + jsval" where
  "classesAdd (JSet cs) x = Inr (JSet (if x \<in> set cs then cs else cs @ [x]))"
| "classesAdd classes x = Inl TypeError"

text \<open>
  \<^verbatim>\<open>function handleClass(classes: Set<string>, name: unknown): void {
    if (!name) { return; }
    if (typeof name === "string") { classes.add(name); return; }
    if (Array.isArray(name)) { return name.forEach((value) => handleClass(classes, value)); }
    for (const [key, value] of Object.entries(name as Record<string, unknown>)) {
      if (value) { classes.add(key); }
    }
  }\<close>
  \<open>Object.entries\<close> of a number, of \<open>true\<close> and of a \<open>Set\<close> is empty.
\<close>

fun addTruthyKeys :: "jsval \<Rightarrow> (string \<times> jsval) list \<Rightarrow> error + jsval" where
  "addTruthyKeys classes [] = Inr classes"
| "addTruthyKeys classes ((key, v) # es) =
     (if truthy v
      then (case classesAdd classes key of
              Inl e \<Rightarrow> Inl e
            | Inr classes' \<Rightarrow> addTruthyKeys classes' es)
      else addTruthyKeys classes es)"

fun handleClass :: "jsval \<Rightarrow> jsval \<Rightarrow> error + jsval"
  and handleClassEach :: "jsval \<Rightarrow> jsval list \<Rightarrow> error + jsval" where
  "handleClass classes JUndefined = Inr classes"
| "handleClass classes JNull = Inr classes"
| "handleClass classes (JBool b) = Inr classes"
| "handleClass classes (JNum n) = Inr classes"
| "handleClass classes (JStr s) = (if s = [] then Inr classes else classesAdd classes s)"
| "handleClass classes (JArr vs) = handleClassEach classes vs"
| "handleClass classes (JObj es) = addTruthyKeys classes es"
| "handleClass classes (JSet cs) = Inr classes"
| "handleClassEach classes [] = Inr classes"
| "handleClassEach classes (v # vs) =
     (case handleClass classes v of
        Inl e \<Rightarrow> Inl e
      | Inr classes' \<Rightarrow> handleClassEach classes' vs)"

text \<open>
  \<^verbatim>\<open>function handleAttributes(attributes: Map<string, unknown>, name: unknown, validNames: string[]): void {
    if (!name) { return; }
    if (typeof name === "string") {
      if (isValid(name, validNames)) { attributes.set(name, true); }
      return;
    }
    if (Array.isArray(name)) {
      return name.forEach((value) => handleAttributes(attributes, value, validNames));
    }
    for (const [key, value] of Object.entries(name as Record<string, unknown>)) {
      if (!isValid(key, validNames)) { continue; }
      if (key === "class") {
        const classList = (attributes.get("class") || new Set()) as Set<string>;
        handleClass(classList, value);
        attributes.set("class", classList);
        continue;
      }
      attributes.set(key, value);
    }
  }\<close>
  The map is passed in and returned; an exception discards it.
\<close>

definition classListOf :: "attrmap \<Rightarrow> jsval" where
  "classListOf attributes =
     (let c = mapGet attributes ''class'' in if truthy c then c else JSet [])"

fun handleEntries :: "attrmap \<Rightarrow> (string \<times> jsval) list \<Rightarrow> string list \<Rightarrow> error + attrmap" where
  "handleEntries attributes [] validNames = Inr attributes"
| "handleEntries attributes ((key, v) # es) validNames =
     (if \<not> isValid key validNames then handleEntries attributes es validNames
      else if key = ''class'' then
        (case handleClass (classListOf attributes) v of
           Inl e \<Rightarrow> Inl e
         | Inr classList \<Rightarrow> handleEntries (mapSet attributes ''class'' classList) es validNames)
      else handleEntries (mapSet attributes key v) es validNames)"

fun handleAttributes :: "attrmap \<Rightarrow> jsval \<Rightarrow> string list \<Rightarrow> error + attrmap"
  and handleAttributesEach :: "attrmap \<Rightarrow> jsval list \<Rightarrow> string list \<Rightarrow> error + attrmap" where
  "handleAttributes attributes JUndefined validNames = Inr attributes"
| "handleAttributes attributes JNull validNames = Inr attributes"
| "handleAttributes attributes (JBool b) validNames = Inr attributes"
| "handleAttributes attributes (JNum n) validNames = Inr attributes"
| "handleAttributes attributes (JStr s) validNames =
     (if s = [] then Inr attributes
      else if isValid s validNames then Inr (mapSet attributes s (JBool True))
      else Inr attributes)"
| "handleAttributes attributes (JArr vs) validNames =
     handleAttributesEach attributes vs validNames"
| "handleAttributes attributes (JObj es) validNames = handleEntries attributes es validNames"
| "handleAttributes attributes (JSet cs) validNames = Inr attributes"
| "handleAttributesEach attributes [] validNames = Inr attributes"
| "handleAttributesEach attributes (v # vs) validNames =
     (case handleAttributes attributes v validNames of
        Inl e \<Rightarrow> Inl e
      | Inr attributes' \<Rightarrow> handleAttributesEach attributes' vs validNames)"

text \<open>
  \<^verbatim>\<open>function joinAttributes(attributes: Map<string, unknown>) {
    const values = [];
    for (const [name, value] of attributes) {
      if (value === undefined || value === null || value === false) { continue; }
      if (value === true) { values.push(name); continue; }
      if (value instanceof Set) {
        if (value.size) { values.push(`${name}="${escape(Array.from(value).join(" "))}"`); }
        continue;
      }
      values.push(`${name}="${escape(value as string)}"`);
    }
    return values.join(" ");
  }\<close>
  \<open>escape\<close> calls \<open>value.replace\<close>: a number, an array or an object has no such
  method, and the call throws a \<open>TypeError\<close>.
\<close>

definition quoted :: "string \<Rightarrow> string \<Rightarrow> string" where
  "quoted name v = name @ ''='' @ [CHR 0x22] @ escape v @ [CHR 0x22]"

fun joinLoop :: "attrmap \<Rightarrow> string list \<Rightarrow> error + string list" where
  "joinLoop [] vals = Inr vals"
| "joinLoop ((name, v) # rest) vals =
     (if v = JUndefined \<or> v = JNull \<or> v = JBool False then joinLoop rest vals
      else if v = JBool True then joinLoop rest (vals @ [name])
      else (case v of
              JSet cs \<Rightarrow>
                (if cs \<noteq> [] then joinLoop rest (vals @ [quoted name (joinWith '' '' cs)])
                 else joinLoop rest vals)
            | JStr s \<Rightarrow> joinLoop rest (vals @ [quoted name s])
            | _ \<Rightarrow> Inl TypeError))"

definition joinAttributes :: "attrmap \<Rightarrow> error + string" where
  "joinAttributes attributes =
     (case joinLoop attributes [] of
        Inl e \<Rightarrow> Inl e
      | Inr vals \<Rightarrow> Inr (joinWith '' '' vals))"

text \<open>
  \<^verbatim>\<open>export function attr(values: unknown, ...validNames: string[]): string {
    const attributes = new Map();
    handleAttributes(attributes, values, validNames);
    return joinAttributes(attributes);
  }
  export function className(...names: unknown[]): string {
    const classes = new Set<string>();
    names.forEach((name) => handleClass(classes, name));
    return Array.from(classes).join(" ");
  }\<close>
\<close>

definition attr :: "jsval \<Rightarrow> string list \<Rightarrow> error + string" where
  "attr vals validNames =
     (case handleAttributes [] vals validNames of
        Inl e \<Rightarrow> Inl e
      | Inr attributes \<Rightarrow> joinAttributes attributes)"

definition className :: "jsval list \<Rightarrow> error + string" where
  "className names =
     (case handleClassEach (JSet []) names of
        Inl e \<Rightarrow> Inl e
      | Inr (JSet cs) \<Rightarrow> Inr (joinWith '' '' cs)
      | Inr other \<Rightarrow> Inl TypeError)"

text \<open>
  What the loop of \<open>joinAttributes\<close> is said to emit, written from the description:
  each of the five characters becomes its entity; an entry holding \<open>undefined\<close>,
  \<open>null\<close> or \<open>false\<close> emits nothing, an entry holding \<open>true\<close> its bare name, a
  string (or a non-empty class set, joined by spaces) the pair \<open>name="value"\<close>.
\<close>

definition entityOf :: "char \<Rightarrow> string" where
  "entityOf c =
     (if c = CHR ''&'' then ''&amp;''
      else if c = CHR ''<'' then ''&lt;''
      else if c = CHR ''>'' then ''&gt;''
      else if c = CHR 0x27 then ''&#39;''
      else if c = CHR 0x22 then ''&#34;''
      else [c])"

definition quotedSpec :: "string \<Rightarrow> string \<Rightarrow> string" where
  "quotedSpec name v = name @ ''='' @ [CHR 0x22] @ concat (map entityOf v) @ [CHR 0x22]"

fun emittedSpec :: "string \<times> jsval \<Rightarrow> string list" where
  "emittedSpec (name, JUndefined) = []"
| "emittedSpec (name, JNull) = []"
| "emittedSpec (name, JBool b) = (if b then [name] else [])"
| "emittedSpec (name, JStr s) = [quotedSpec name s]"
| "emittedSpec (name, JSet cs) = (if cs = [] then [] else [quotedSpec name (joinWith '' '' cs)])"
| "emittedSpec (name, v) = []"

text \<open>
  A quoted value is safe when it holds none of \<open><\<close>, \<open>>\<close>, the two quotes, and
  every \<open>&\<close> in it starts one of the five entities.
\<close>

definition entityNames :: "string list" where
  "entityNames = [''&amp;'', ''&lt;'', ''&gt;'', ''&#39;'', ''&#34;'']"

fun htmlSafe :: "string \<Rightarrow> bool" where
  "htmlSafe [] = True"
| "htmlSafe (c # cs) =
     ((if c = CHR ''&'' then list_ex (\<lambda>e. take (length e) (c # cs) = e) entityNames
       else c \<noteq> CHR ''<'' \<and> c \<noteq> CHR ''>'' \<and> c \<noteq> CHR 0x27 \<and> c \<noteq> CHR 0x22)
      \<and> htmlSafe cs)"

subsection \<open>Template engines and their compiled-template caches\<close>

text \<open>
  The Liquid library (\<open>deps/liquid.ts\<close>) is a parameter of the engine: its parser
  and its renderers are functions that may throw. \<open>'tpl\<close> is the type of a parsed
  template, \<open>'data\<close> of the render data.
\<close>

record ('tpl, 'data) Liquid =
  liquid_parse :: "string \<Rightarrow> string \<Rightarrow> error + 'tpl"
  liquid_render :: "'tpl \<Rightarrow> 'data \<Rightarrow> error + string"
  liquid_renderSync :: "'tpl \<Rightarrow> 'data \<Rightarrow> error + string"
  liquid_parseAndRender :: "string \<Rightarrow> 'data \<Rightarrow> error + string"
  liquid_parseAndRenderSync :: "string \<Rightarrow> 'data \<Rightarrow> error + string"

text \<open>
  \<^verbatim>\<open>export class LiquidEngine implements Engine {
    liquid: Liquid;
    cache = new Map<string, Template[]>();
    basePath: string;
    includes: string;
  }\<close>
  \<open>liquidPosixJoin\<close> is the imported \<open>posix.join\<close>, a parameter as well.
\<close>

record ('tpl, 'data) LiquidEngine =
  liquid :: "('tpl, 'data) Liquid"
  liquidCache :: "string \<rightharpoonup> 'tpl"
  liquidBasePath :: string
  liquidIncludes :: string
  liquidPosixJoin :: "string \<Rightarrow> string \<Rightarrow> string"

text \<open>
  \<^verbatim>\<open>deleteCache(file: string): void { this.cache.delete(file); }\<close>
\<close>

definition Liquid_deleteCache ::
  "('tpl, 'data) LiquidEngine \<Rightarrow> string \<Rightarrow> ('tpl, 'data) LiquidEngine" where
  "Liquid_deleteCache e file = e\<lparr>liquidCache := (liquidCache e)(file := None)\<rparr>"

text \<open>
  \<^verbatim>\<open>getTemplate(content: string, filename: string): Template[] {
    if (!this.cache.has(filename)) {
      this.cache.set(filename, this.liquid.parse(content, posix.join(this.basePath, filename)));
    }
    return this.cache.get(filename)!;
  }\<close>
  A parser that throws leaves the cache as it was.
\<close>

definition Liquid_getTemplate ::
  "('tpl, 'data) LiquidEngine \<Rightarrow> string \<Rightarrow> string
     \<Rightarrow> (error + 'tpl) \<times> ('tpl, 'data) LiquidEngine" where
  "Liquid_getTemplate e content filename =
     (case liquidCache e filename of
        None \<Rightarrow>
          (case liquid_parse (liquid e) content
                  (liquidPosixJoin e (liquidBasePath e) filename) of
             Inl err \<Rightarrow> (Inl err, e)
           | Inr t \<Rightarrow> (Inr t, e\<lparr>liquidCache := (liquidCache e)(filename \<mapsto> t)\<rparr>))
      | Some t \<Rightarrow> (Inr t, e))"

text \<open>
  The test \<open>if (!filename)\<close> on an optional string: it holds for a missing
  filename and for the empty string. \<open>givenFilename\<close> is the filename that passes it.
\<close>

definition givenFilename :: "string option \<Rightarrow> string option" where
  "givenFilename filename =
     (case filename of None \<Rightarrow> None | Some f \<Rightarrow> if f = [] then None else Some f)"

text \<open>
  \<^verbatim>\<open>async render(content: string, data?: Record<string, unknown>, filename?: string) {
    if (!filename) { return this.liquid.parseAndRender(content, data); }
    const template = this.getTemplate(content, filename);
    return await this.liquid.render(template, data);
  }
  renderComponent(content: string, data?: Record<string, unknown>, filename?: string) {
    if (!filename) { return this.liquid.parseAndRenderSync(content, data); }
    const template = this.getTemplate(content, filename);
    return this.liquid.renderSync(template, data);
  }\<close>
  Each returns its result and the engine with its cache as the call left it.
\<close>

definition Liquid_render ::
  "('tpl, 'data) LiquidEngine \<Rightarrow> string \<Rightarrow> 'data \<Rightarrow> string option
     \<Rightarrow> (error + string) \<times> ('tpl, 'data) LiquidEngine" where
  "Liquid_render e content data filename =
     (case givenFilename filename of
        None \<Rightarrow> (liquid_parseAndRender (liquid e) content data, e)
      | Some f \<Rightarrow>
          (case Liquid_getTemplate e content f of
             (Inl err, e') \<Rightarrow> (Inl err, e')
           | (Inr template, e') \<Rightarrow> (liquid_render (liquid e') template data, e')))"

definition Liquid_renderComponent ::
  "('tpl, 'data) LiquidEngine \<Rightarrow> string \<Rightarrow> 'data \<Rightarrow> string option
     \<Rightarrow> (error + string) \<times> ('tpl, 'data) LiquidEngine" where
  "Liquid_renderComponent e content data filename =
     (case givenFilename filename of
        None \<Rightarrow> (liquid_parseAndRenderSync (liquid e) content data, e)
      | Some f \<Rightarrow>
          (case Liquid_getTemplate e content f of
             (Inl err, e') \<Rightarrow> (Inl err, e')
           | (Inr template, e') \<Rightarrow> (liquid_renderSync (liquid e') template data, e')))"

text \<open>
  The Pug engine. The compiler (\<open>deps/pug.ts\<close>) and \<open>join\<close> are parameters; a
  compiled template is a function from the render data to the output. Of the Pug
  options the model keeps \<open>filename\<close> and \<open>filters\<close>; render data is its variables
  and its optional \<open>filters\<close> entry.
  \<^verbatim>\<open>export class PugEngine implements Engine {
    options: PugOptions;
    compiler: Compiler;
    filters: Record<string, Helper> = {};
    cache = new Map<string, (data?: Record<string, unknown>) => string>();
    basePath: string;
    includes: string;
  }\<close>
\<close>

record 'h PugOptions =
  pugOptFilename :: "string option"
  pugOptFilters :: "string \<rightharpoonup> 'h"

record ('v, 'h) PugData =
  pugVars :: "string \<rightharpoonup> 'v"
  pugDataFilters :: "(string \<rightharpoonup> 'h) option"

type_synonym ('v, 'h) PugTemplate = "('v, 'h) PugData \<Rightarrow> error + string"

record ('v, 'h) PugEngine =
  pugOptions :: "'h PugOptions"
  pugCompiler :: "string \<Rightarrow> 'h PugOptions \<Rightarrow> error + ('v, 'h) PugTemplate"
  pugFilters :: "string \<rightharpoonup> 'h"
  pugCache :: "string \<rightharpoonup> ('v, 'h) PugTemplate"
  pugBasePath :: string
  pugIncludes :: string
  pugJoin :: "string \<Rightarrow> string \<Rightarrow> string"

text \<open>
  \<^verbatim>\<open>deleteCache(): void { this.cache.clear(); }\<close>
  The method takes no parameter: the filename a caller passes is ignored.
\<close>

definition Pug_deleteCache :: "('v, 'h) PugEngine \<Rightarrow> string \<Rightarrow> ('v, 'h) PugEngine" where
  "Pug_deleteCache e file = e\<lparr>pugCache := Map.empty\<rparr>"

text \<open>
  \<^verbatim>\<open>renderComponent(content: string, data?: Record<string, unknown>, filename?: string): string {
    const dataWithFilters = {
      ...data,
      filters: { ...data?.filters || {}, ...this.filters },
    };
    if (!filename) { return this.compiler(content, this.options)(dataWithFilters); }
    if (!this.cache.has(filename)) {
      this.cache.set(filename,
        this.compiler(content, { ...this.options, filename: join(this.basePath, filename) }));
    }
    return this.cache.get(filename)!(dataWithFilters);
  }
  render(content: string, data?: Record<string, unknown>, filename?: string): string {
    return this.renderComponent(content, data, filename);
  }\<close>
\<close>

definition dataWithFilters ::
  "('v, 'h) PugEngine \<Rightarrow> ('v, 'h) PugData option \<Rightarrow> ('v, 'h) PugData" where
  "dataWithFilters e data =
     \<lparr>pugVars = (case data of None \<Rightarrow> Map.empty | Some d \<Rightarrow> pugVars d),
      pugDataFilters =
        Some ((case data of
                 None \<Rightarrow> Map.empty
               | Some d \<Rightarrow> (case pugDataFilters d of None \<Rightarrow> Map.empty | Some fs \<Rightarrow> fs))
              ++ pugFilters e)\<rparr>"

definition Pug_renderComponent ::
  "('v, 'h) PugEngine \<Rightarrow> string \<Rightarrow> ('v, 'h) PugData option \<Rightarrow> string option
     \<Rightarrow> (error + string) \<times> ('v, 'h) PugEngine" where
  "Pug_renderComponent e content data filename =
     (case givenFilename filename of
        None \<Rightarrow>
          (case pugCompiler e content (pugOptions e) of
             Inl err \<Rightarrow> (Inl err, e)
           | Inr fn \<Rightarrow> (fn (dataWithFilters e data), e))
      | Some f \<Rightarrow>
          (case pugCache e f of
             None \<Rightarrow>
               (case pugCompiler e content
                       ((pugOptions e)\<lparr>pugOptFilename := Some (pugJoin e (pugBasePath e) f)\<rparr>) of
                  Inl err \<Rightarrow> (Inl err, e)
                | Inr fn \<Rightarrow>
                    (fn (dataWithFilters e data), e\<lparr>pugCache := (pugCache e)(f \<mapsto> fn)\<rparr>))
           | Some fn \<Rightarrow> (fn (dataWithFilters e data), e)))"

definition Pug_render ::
  "('v, 'h) PugEngine \<Rightarrow> string \<Rightarrow> ('v, 'h) PugData option \<Rightarrow> string option
     \<Rightarrow> (error + string) \<times> ('v, 'h) PugEngine" where
  "Pug_render e content data filename = Pug_renderComponent e content data filename"

text \<open>
  The JSX engine has no compiled-template cache among its fields.
  \<^verbatim>\<open>export class JsxEngine implements Engine {
    jsxImportSource = specifier;
    helpers: Record<string, Helper> = {};
    basePath: string;
    includes: string;
    deleteCache() {}
  }\<close>
\<close>

record 'h JsxEngine =
  jsxHelpers :: "string \<rightharpoonup> 'h"
  jsxBasePath :: string
  jsxIncludes :: string

definition Jsx_deleteCache :: "'h JsxEngine \<Rightarrow> string \<Rightarrow> 'h JsxEngine" where
  "Jsx_deleteCache e file = e"



text \<open>
  Example instances of the parameters, for concrete evaluation: a Liquid library
  whose parsed template is the content itself and whose renderers return the
  template text, and a Pug compiler whose compiled function returns the content.
\<close>

definition exampleLiquid :: "(string, unit) Liquid" where
  "exampleLiquid =
     \<lparr>liquid_parse = (\<lambda>content path. Inr content),
      liquid_render = (\<lambda>t d. Inr t),
      liquid_renderSync = (\<lambda>t d. Inr t),
      liquid_parseAndRender = (\<lambda>content d. Inr content),
      liquid_parseAndRenderSync = (\<lambda>content d. Inr content)\<rparr>"

definition exampleLiquidEngine :: "(string \<rightharpoonup> string) \<Rightarrow> (string, unit) LiquidEngine" where
  "exampleLiquidEngine c =
     \<lparr>liquid = exampleLiquid, liquidCache = c, liquidBasePath = ''/site'',
      liquidIncludes = ''_includes'', liquidPosixJoin = (\<lambda>a b. a @ ''/'' @ b)\<rparr>"

definition examplePugEngine ::
  "(string \<rightharpoonup> (unit, unit) PugTemplate) \<Rightarrow> (unit, unit) PugEngine" where
  "examplePugEngine c =
     \<lparr>pugOptions = \<lparr>pugOptFilename = None, pugOptFilters = Map.empty\<rparr>,
      pugCompiler = (\<lambda>content opts. Inr (\<lambda>d. Inr content)),
      pugFilters = Map.empty, pugCache = c, pugBasePath = ''/site'',
      pugIncludes = ''_includes'', pugJoin = (\<lambda>a b. a @ ''/'' @ b)\<rparr>"

definition exampleJsxEngine :: "unit JsxEngine" where
  "exampleJsxEngine =
     \<lparr>jsxHelpers = Map.empty, jsxBasePath = ''/site/'', jsxIncludes = ''_includes''\<rparr>"

subsection \<open>CMS watch bridge\<close>

text \<open>
  \<^verbatim>\<open>const mustReload = (files: Set<string>): boolean =>
    files.has(_config) || files.has(_cms);

  site.addEventListener("beforeUpdate", (ev) => {
    if (mustReload(ev.files)) {
      log.info("Reloading the site...");
      postMessage({ type: "reload" });
      return;
    }
  });\<close>
  \<open>_config\<close> and \<open>_cms\<close> are the normalized paths of the site configuration file
  and of the CMS configuration file, computed once in \<open>build\<close>; they are the first
  two arguments. The worker's effects are the messages it has posted and the lines
  it has logged; the listener returns its JavaScript result (\<open>undefined\<close> on both
  paths) and the worker afterwards.
\<close>

datatype message = Reload

record Worker =
  posted :: "message list"
  logged :: "string list"

definition mustReload :: "string \<Rightarrow> string \<Rightarrow> string set \<Rightarrow> bool" where
  "mustReload configFile cmsFile files \<longleftrightarrow> configFile \<in> files \<or> cmsFile \<in> files"

definition beforeUpdate :: "string \<Rightarrow> string \<Rightarrow> string set \<Rightarrow> Worker \<Rightarrow> jsval \<times> Worker" where
  "beforeUpdate configFile cmsFile files w =
     (if mustReload configFile cmsFile files
      then (JUndefined,
            w\<lparr>logged := logged w @ [''Reloading the site...''],
              posted := posted w @ [Reload]\<rparr>)
      else (JUndefined, w))"

subsection \<open>Renderer\<close>

text \<open>
  The dispatcher (\<open>core/renderer.ts\<close>) and the format registry (\<open>core/formats.ts\<close>)
  are not among the sources; \<open>tests/engines\<close> calls them. Their definitions below
  follow the specification, sections 3 and 4.1 to 4.2.
\<close>

text \<open>
  Modelled from the spec: the reserved context key \<open>templateEngine\<close> of the missing
  renderer, "a single name", "a delimited string (comma-separated, internal
  whitespace trimmed)" or "an ordered list of names".
\<close>

datatype TemplateEngine = EngineString string | EngineList "string list"

text \<open>
  Modelled from the spec: the render context of the missing renderer, "a mapping
  from string key to a small closed set of tagged value kinds, with typed accessors
  for the reserved keys".
\<close>

record Context =
  templateEngine :: "TemplateEngine option"
  vars :: "string \<rightharpoonup> jsval"

text \<open>
  Modelled from the spec: the Engine contract the missing renderer consumes,
  \<open>render(content, context, filename)\<close>, as the transform it computes.
\<close>

record Engine =
  engineRender :: "string \<Rightarrow> Context \<Rightarrow> string \<Rightarrow> string"

text \<open>
  Modelled from the spec: the Format descriptor of the missing registry, of which
  the renderer reads the optional engine.
\<close>

record Format =
  formatEngine :: "Engine option"

text \<open>
  Modelled from the spec: the missing format registry, "maps a page's file
  extension(s) to a descriptor", in registration order.
\<close>

type_synonym Formats = "(string \<times> Format) list"

text \<open>
  Modelled from the spec: the whitespace trimmed around a name in a delimited
  string (ASCII space, tab, line feed, vertical tab, form feed, carriage return),
  for the missing renderer.
\<close>

definition isSpace :: "char \<Rightarrow> bool" where
  "isSpace c = (let n = (of_char c :: nat) in n = 32 \<or> (9 \<le> n \<and> n \<le> 13))"

text \<open>Modelled from the spec: "internal whitespace trimmed" of the missing renderer.\<close>

definition trim :: "string \<Rightarrow> string" where
  "trim s = rev (dropWhile isSpace (rev (dropWhile isSpace s)))"

text \<open>Modelled from the spec: "comma-separated" of the missing renderer.\<close>

fun splitComma :: "string \<Rightarrow> string list" where
  "splitComma [] = [[]]"
| "splitComma (c # cs) =
     (if c = CHR '','' then [] # splitComma cs
      else (c # hd (splitComma cs)) # tl (splitComma cs))"

text \<open>Modelled from the spec: the suffix test of the missing registry's \<open>resolve\<close>.\<close>

definition endsWith :: "string \<Rightarrow> string \<Rightarrow> bool" where
  "endsWith s suffix \<longleftrightarrow>
     length suffix \<le> length s \<and> drop (length s - length suffix) s = suffix"

text \<open>
  Modelled from the spec: \<open>resolve(path)\<close> of the missing registry, which "matches
  the longest registered extension suffix" and never throws.
\<close>

fun search :: "Formats \<Rightarrow> string \<Rightarrow> (string \<times> Format) option" where
  "search [] path = None"
| "search ((ext, format) # rest) path =
     (case search rest path of
        None \<Rightarrow> if endsWith path ext then Some (ext, format) else None
      | Some (ext', format') \<Rightarrow>
          if endsWith path ext \<and> length ext' \<le> length ext then Some (ext, format)
          else Some (ext', format'))"

text \<open>
  Modelled from the spec: \<open>defaultEngineFor(extension(filename))\<close> of the missing
  renderer.
\<close>

definition defaultEngineFor :: "Formats \<Rightarrow> string \<Rightarrow> Engine option" where
  "defaultEngineFor formats filename =
     (case search formats filename of
        None \<Rightarrow> None
      | Some (ext, format) \<Rightarrow> formatEngine format)"

text \<open>
  Modelled from the spec: the engine registered under a name, for the missing
  renderer. The test registers an engine with the extension \<open>.foo\<close> and names it
  \<open>foo\<close>: a name stands for the extension with a dot before it.
\<close>

definition engineNamed :: "Formats \<Rightarrow> string \<Rightarrow> Engine option" where
  "engineNamed formats name =
     (case map_of formats (''.'' @ name) of
        None \<Rightarrow> None
      | Some format \<Rightarrow> formatEngine format)"

text \<open>
  Modelled from the spec: rule 1 of the missing renderer's chain resolution. A
  string is split at its commas and each part trimmed (a single name is its own
  only part); a list is "that exact sequence".
\<close>

definition chainNames :: "TemplateEngine \<Rightarrow> string list" where
  "chainNames te =
     (case te of
        EngineString s \<Rightarrow> map trim (splitComma s)
      | EngineList names \<Rightarrow> names)"

text \<open>
  Modelled from the spec: the chain resolution of the missing renderer, "first rule
  that applies wins". An entry is the engine a name resolves to, or \<open>None\<close> for a
  name with no registered engine.
\<close>

definition getEngines :: "Formats \<Rightarrow> Context \<Rightarrow> string \<Rightarrow> Engine option list" where
  "getEngines formats context filename =
     (case templateEngine context of
        Some te \<Rightarrow> map (engineNamed formats) (chainNames te)
      | None \<Rightarrow>
          (case defaultEngineFor formats filename of
             Some e \<Rightarrow> [Some e]
           | None \<Rightarrow> []))"

text \<open>
  Modelled from the spec: the execution of the chain by the missing renderer, "the
  chain is applied left-to-right; the output string of engine i becomes the content
  input to engine i+1; the original context is passed unchanged to every step"; an
  unresolved entry "is a no-op for that step".
\<close>

fun runChain :: "Engine option list \<Rightarrow> string \<Rightarrow> Context \<Rightarrow> string \<Rightarrow> string" where
  "runChain [] content context filename = content"
| "runChain (None # chain) content context filename = runChain chain content context filename"
| "runChain (Some e # chain) content context filename =
     runChain chain (engineRender e content context filename) context filename"

text \<open>
  Modelled from the spec: \<open>render(content, context, filename)\<close> of the missing
  renderer, the value its promise resolves to.
\<close>

definition render :: "Formats \<Rightarrow> string \<Rightarrow> Context \<Rightarrow> string \<Rightarrow> string" where
  "render formats content context filename =
     runChain (getEngines formats context filename) content context filename"

text \<open>
  The two engines of \<open>tests/engines\<close>, and the registry after both \<open>loadPages\<close>
  calls:
  \<^verbatim>\<open>site.loadPages([".foo"], { engine: new class implements Engine {
      renderComponent(content: string, data: Record<string, unknown>): string {
        return content + data.foo;
      } ... }() });
  site.loadPages([".upper"], { engine: new class implements Engine {
      renderComponent(content: string): string { return content.toUpperCase(); } ... }() });\<close>
  Each \<open>render\<close> resolves to its \<open>renderComponent\<close>.
\<close>

definition fooEngine :: Engine where
  "fooEngine =
     \<lparr>engineRender = (\<lambda>content data filename.
        content @ toString (case vars data ''foo'' of None \<Rightarrow> JUndefined | Some v \<Rightarrow> v))\<rparr>"

definition upperEngine :: Engine where
  "upperEngine = \<lparr>engineRender = (\<lambda>content data filename. toUpperCase content)\<rparr>"

definition testFormats :: Formats where
  "testFormats =
     [(''.foo'', \<lparr>formatEngine = Some fooEngine\<rparr>),
      (''.upper'', \<lparr>formatEngine = Some upperEngine\<rparr>)]"

text \<open>The context \<open>{ foo: "bar" }\<close> of the test, with a \<open>templateEngine\<close> or none.\<close>

definition testContext :: "TemplateEngine option \<Rightarrow> Context" where
  "testContext te = \<lparr>templateEngine = te, vars = [''foo'' \<mapsto> JStr ''bar'']\<rparr>"




subsection \<open>Date parsing\<close>

text \<open>
  The parser (\<open>core/utils/date.ts\<close>) is not among the sources; the test
  "Prepare page (Renderer)" calls it. Its definition follows the specification,
  section 4.3. An instant is a number of seconds since 1970-01-01T00:00:00Z; the
  local time zone is a fixed offset \<open>tz\<close> in seconds east of UTC.
\<close>

text \<open>Modelled from the spec: a decimal digit of the missing date parser's input.\<close>

definition isDigit :: "char \<Rightarrow> bool" where
  "isDigit c = (let n = (of_char c :: nat) in 48 \<le> n \<and> n \<le> 57)"

text \<open>Modelled from the spec: the value of a run of digits, for the missing date parser.\<close>

definition digitsValue :: "string \<Rightarrow> int" where
  "digitsValue s = foldl (\<lambda>a c. 10 * a + (int (of_char c) - 48)) 0 s"

text \<open>Modelled from the spec: a numeric field of the missing date parser's input.\<close>

definition parseDigits :: "string \<Rightarrow> int option" where
  "parseDigits s = (if s \<noteq> [] \<and> list_all isDigit s then Some (digitsValue s) else None)"

text \<open>Modelled from the spec: the characters \<open>i\<close> to \<open>j - 1\<close> of the missing parser's input.\<close>

definition slice :: "nat \<Rightarrow> nat \<Rightarrow> string \<Rightarrow> string" where
  "slice i j s = take (j - i) (drop i s)"

text \<open>
  Modelled from the spec: the missing date parser's first step, "all compact forms
  are first rewritten into their punctuated equivalent", for the two compact forms
  \<open>YYYYMMDD\<close> and \<open>YYYYMMDDTHHMMSSZ\<close>.
\<close>

definition punctuate :: "string \<Rightarrow> string" where
  "punctuate s =
     (if length s = 8 \<and> list_all isDigit s
      then slice 0 4 s @ ''-'' @ slice 4 6 s @ ''-'' @ slice 6 8 s
      else if length s = 16 \<and> list_all isDigit (slice 0 8 s) \<and> slice 8 9 s = ''T''
              \<and> list_all isDigit (slice 9 15 s) \<and> slice 15 16 s = ''Z''
      then slice 0 4 s @ ''-'' @ slice 4 6 s @ ''-'' @ slice 6 8 s @ ''T''
             @ slice 9 11 s @ '':'' @ slice 11 13 s @ '':'' @ slice 13 15 s @ ''Z''
      else s)"

text \<open>Modelled from the spec: the Gregorian leap years of the standard instant parsing.\<close>

definition isLeapYear :: "int \<Rightarrow> bool" where
  "isLeapYear y \<longleftrightarrow> y mod 4 = 0 \<and> (y mod 100 \<noteq> 0 \<or> y mod 400 = 0)"

text \<open>Modelled from the spec: the month lengths of the standard instant parsing.\<close>

definition daysInMonth :: "int \<Rightarrow> int \<Rightarrow> int" where
  "daysInMonth y m =
     (if m = 2 then (if isLeapYear y then 29 else 28)
      else if m = 4 \<or> m = 6 \<or> m = 9 \<or> m = 11 then 30 else 31)"

text \<open>
  Modelled from the spec: the day number (days since 1970-01-01) of a Gregorian
  date, for the standard instant parsing the missing parser delegates to.
\<close>

definition daysFromCivil :: "int \<Rightarrow> int \<Rightarrow> int \<Rightarrow> int" where
  "daysFromCivil y m d =
     (let y' = (if m \<le> 2 then y - 1 else y);
          era = y' div 400;
          yoe = y' - era * 400;
          doy = (153 * (if m > 2 then m - 3 else m + 9) + 2) div 5 + d - 1;
          doe = yoe * 365 + yoe div 4 - yoe div 100 + doy
      in era * 146097 + doe - 719468)"

text \<open>
  Modelled from the spec: the Gregorian date (year, month 1 to 12, day) of a day
  number, for the getters \<open>getFullYear\<close>, \<open>getMonth\<close> and \<open>getDate\<close> of the
  test.
\<close>

definition civilFromDays :: "int \<Rightarrow> int \<times> int \<times> int" where
  "civilFromDays z =
     (let z' = z + 719468;
          era = z' div 146097;
          doe = z' - era * 146097;
          yoe = (doe - doe div 1460 + doe div 36524 - doe div 146096) div 365;
          doy = doe - (365 * yoe + yoe div 4 - yoe div 100);
          mp = (5 * doy + 2) div 153;
          d = doy - (153 * mp + 2) div 5 + 1;
          m = (if mp < 10 then mp + 3 else mp - 9)
      in (if m \<le> 2 then yoe + era * 400 + 1 else yoe + era * 400, m, d))"

text \<open>
  Modelled from the spec: the zone of a parsed date, local when the input names
  none ("midnight, local", "local time"), else "Z or explicit numeric offset" in
  seconds east of UTC.
\<close>

datatype zone = LocalZone | UtcOffset int

text \<open>Modelled from the spec: the form \<open>YYYY-MM-DD\<close> of the missing date parser.\<close>

definition parseDatePart :: "string \<Rightarrow> int option" where
  "parseDatePart s =
     (case (parseDigits (slice 0 4 s), parseDigits (slice 5 7 s), parseDigits (slice 8 10 s)) of
        (Some y, Some m, Some d) \<Rightarrow>
          if length s = 10 \<and> slice 4 5 s = ''-'' \<and> slice 7 8 s = ''-''
             \<and> 1 \<le> m \<and> m \<le> 12 \<and> 1 \<le> d \<and> d \<le> daysInMonth y m
          then Some (daysFromCivil y m d * 86400) else None
      | _ \<Rightarrow> None)"

text \<open>Modelled from the spec: the form \<open>HH:MM:SS\<close> of the missing date parser.\<close>

definition parseTimePart :: "string \<Rightarrow> int option" where
  "parseTimePart s =
     (case (parseDigits (slice 0 2 s), parseDigits (slice 3 5 s), parseDigits (slice 6 8 s)) of
        (Some h, Some mi, Some se) \<Rightarrow>
          if length s = 8 \<and> slice 2 3 s = '':'' \<and> slice 5 6 s = '':''
             \<and> h < 24 \<and> mi < 60 \<and> se < 60
          then Some (h * 3600 + mi * 60 + se) else None
      | _ \<Rightarrow> None)"

text \<open>
  Modelled from the spec: the digits \<open>HH:MM\<close> or \<open>HHMM\<close> of an "explicit numeric
  offset", in seconds, for the missing date parser.
\<close>

definition parseOffsetDigits :: "string \<Rightarrow> int option" where
  "parseOffsetDigits s =
     (let hm = (if length s = 5 \<and> slice 2 3 s = '':'' then slice 0 2 s @ slice 3 5 s else s)
      in case (parseDigits (slice 0 2 hm), parseDigits (slice 2 4 hm)) of
           (Some h, Some mi) \<Rightarrow>
             if length hm = 4 \<and> h < 24 \<and> mi < 60 then Some (h * 3600 + mi * 60) else None
         | _ \<Rightarrow> None)"

text \<open>Modelled from the spec: the zone suffix of the missing date parser's input.\<close>

definition parseZone :: "string \<Rightarrow> zone option" where
  "parseZone s =
     (if s = [] then Some LocalZone
      else if s = ''Z'' then Some (UtcOffset 0)
      else if hd s = CHR ''+'' then map_option UtcOffset (parseOffsetDigits (tl s))
      else if hd s = CHR ''-'' then
        map_option (\<lambda>off. UtcOffset (- off)) (parseOffsetDigits (tl s))
      else None)"

text \<open>
  Modelled from the spec: the "standard instant parsing" the missing date parser
  delegates to, for the punctuated forms the spec lists: the wall-clock seconds of
  the date and time read as if in UTC, and the zone.
\<close>

definition parseStandard :: "string \<Rightarrow> (int \<times> zone) option" where
  "parseStandard s =
     (case parseDatePart (slice 0 10 s) of
        None \<Rightarrow> None
      | Some day \<Rightarrow>
          if length s = 10 then Some (day, LocalZone)
          else if slice 10 11 s = '' '' \<or> slice 10 11 s = ''T'' then
            (case (parseTimePart (slice 11 19 s), parseZone (drop 19 s)) of
               (Some time, Some z) \<Rightarrow> Some (day + time, z)
             | _ \<Rightarrow> None)
          else None)"

text \<open>
  Modelled from the spec: "normalized to absolute instant" of the missing date
  parser: a wall-clock time at an offset is the instant that offset earlier.
\<close>

definition toInstant :: "int \<Rightarrow> int \<times> zone \<Rightarrow> int" where
  "toInstant tz wz =
     (case wz of
        (wall, LocalZone) \<Rightarrow> wall - tz
      | (wall, UtcOffset off) \<Rightarrow> wall - off)"

text \<open>
  Modelled from the spec: \<open>parseDate\<close> of the missing \<open>core/utils/date.ts\<close>, on a
  string: rewrite a compact form, then parse. \<open>None\<close> is a string of no listed form.
\<close>

definition parseDate :: "int \<Rightarrow> string \<Rightarrow> int option" where
  "parseDate tz s = map_option (toInstant tz) (parseStandard (punctuate s))"

text \<open>
  Modelled from the spec: the fields the test reads from a date, in order
  \<open>getFullYear\<close>, \<open>getMonth\<close> (from 0), \<open>getDate\<close>, \<open>getHours\<close>,
  \<open>getMinutes\<close>, \<open>getSeconds\<close>, of wall-clock seconds.
\<close>

definition civilFields :: "int \<Rightarrow> int \<times> int \<times> int \<times> int \<times> int \<times> int" where
  "civilFields wall =
     (case civilFromDays (wall div 86400) of
        (y, m, d) \<Rightarrow>
          (y, m - 1, d, (wall mod 86400) div 3600, (wall mod 3600) div 60, wall mod 60))"

text \<open>Modelled from the spec: the same fields of an instant, in the local zone.\<close>

definition dateFields :: "int \<Rightarrow> int \<Rightarrow> int \<times> int \<times> int \<times> int \<times> int \<times> int" where
  "dateFields tz t = civilFields (t + tz)"

section \<open>Theorems\<close>

subsection \<open>Version packing\<close>

lemma toInt32_id: "- (2 ^ 31) \<le> x \<Longrightarrow> x < 2 ^ 31 \<Longrightarrow> toInt32 x = x"
  unfolding toInt32_def by (simp add: signed_take_bit_int_eq_self)

lemma push_or_add:
  fixes a b :: int
  assumes "0 \<le> b" "b < 2 ^ k"
  shows "push_bit k a OR b = a * 2 ^ k + b"
proof -
  have b: "take_bit k b = b" using assms by (simp add: take_bit_int_eq_self)
  have "\<not> bit (push_bit k a) n \<or> \<not> bit b n" for n
  proof (cases "n < k")
    case True
    then show ?thesis by (simp add: bit_push_bit_iff)
  next
    case False
    have "bit b n = bit (take_bit k b) n" by (simp only: b)
    with False show ?thesis by (simp add: bit_take_bit_iff)
  qed
  then have "push_bit k a + b = push_bit k a OR b" by (rule disjunctive_add)
  then show ?thesis by (simp add: push_bit_eq_mult)
qed

lemma js_shl_small:
  assumes "0 \<le> a" "a < 256" "k \<in> {8, 16}"
  shows "js_shl a k = a * 2 ^ nat k"
proof -
  have "a * 2 ^ nat k \<le> 255 * 2 ^ 16" using assms by (auto intro!: mult_mono)
  moreover have "0 \<le> a * 2 ^ nat k" using assms by simp
  ultimately show ?thesis using assms
    by (auto simp: js_shl_def toInt32_id push_bit_eq_mult)
qed

lemma version_Some:
  assumes "0 \<le> major" "major < 256" "0 \<le> minor" "minor < 256" "0 \<le> patch" "patch < 256"
  shows "version major (Some minor) (Some patch) = major * 65536 + minor * 256 + patch"
proof -
  have s1: "js_shl major 16 = major * 65536" using js_shl_small[of major 16] assms by simp
  have s2: "js_shl minor 8 = minor * 256" using js_shl_small[of minor 8] assms by simp
  have o1: "major * 65536 OR minor * 256 = major * 65536 + minor * 256"
    using push_or_add[of "minor * 256" 16 major] assms by (simp add: push_bit_eq_mult)
  have o2: "(major * 65536 + minor * 256) OR patch = major * 65536 + minor * 256 + patch"
    using push_or_add[of patch 8 "major * 256 + minor"] assms
    by (simp add: push_bit_eq_mult algebra_simps)
  have "js_or (js_shl major 16) (js_shl minor 8) = major * 65536 + minor * 256"
    using assms by (simp add: js_or_def s1 s2 toInt32_id o1)
  then show ?thesis using assms
    by (simp add: version_def defaultArg_def js_or_def toInt32_id o2)
qed

lemma version_defaults: "version major minor patch =
    version major (Some (defaultArg 0 minor)) (Some (defaultArg 0 patch))"
  by (simp add: version_def defaultArg_def)

text \<open>
  Claim C10. For integers \<open>0 \<le> major, minor, patch < 256\<close>, \<open>version\<close> returns the
  24-bit packing \<open>major * 65536 + minor * 256 + patch\<close>, where an omitted \<open>minor\<close> or
  \<open>patch\<close> counts as 0; with both omitted it returns \<open>major * 65536\<close>.
\<close>

theorem version_packing:
  assumes "0 \<le> major" "major < 256"
    and "0 \<le> defaultArg 0 minor" "defaultArg 0 minor < 256"
    and "0 \<le> defaultArg 0 patch" "defaultArg 0 patch < 256"
  shows "version major minor patch
           = major * 65536 + defaultArg 0 minor * 256 + defaultArg 0 patch
         \<and> version major None None = major * 65536"
proof -
  have "version major minor patch
          = major * 65536 + defaultArg 0 minor * 256 + defaultArg 0 patch"
    using version_Some[OF assms] by (simp add: version_defaults[of major minor patch])
  moreover have "version major None None = major * 65536"
    using version_Some[of major 0 0] assms(1,2)
    by (simp add: version_defaults[of major None None] defaultArg_def)
  ultimately show ?thesis by simp
qed

theorem version_packing_witness:
  "version 98 None None = 6422528 \<and> version 1 (Some 2) (Some 3) = 66051"
  using version_packing[of 98 None None] version_packing[of 1 "Some 2" "Some 3"]
  by (simp add: defaultArg_def)

subsection \<open>The \<open>attr\<close> helper escapes what it quotes\<close>

lemma escape_entityOf: "escape s = concat (map entityOf s)"
  by (induction s) (simp_all add: escapeClass_def escapeMatch_def escapeChars_def entityOf_def)

lemma htmlSafe_entityOf: "htmlSafe rest \<Longrightarrow> htmlSafe (entityOf c @ rest)"
  by (simp add: entityOf_def entityNames_def)

lemma htmlSafe_escaped: "htmlSafe (concat (map entityOf s))"
  by (induction s) (simp_all add: htmlSafe_entityOf)

lemma quoted_spec: "quoted name v = quotedSpec name v"
  by (simp add: quoted_def quotedSpec_def escape_entityOf)

lemma joinLoop_emitted:
  "joinLoop m vals = Inr out \<Longrightarrow> out = vals @ concat (map emittedSpec m)"
proof (induction m arbitrary: vals)
  case Nil
  then show ?case by simp
next
  case (Cons p m)
  obtain name v where p: "p = (name, v)" by (cases p)
  from Cons.prems p show ?case
    by (cases v) (auto split: if_splits dest!: Cons.IH simp: quoted_spec)
qed

text \<open>
  Claim C9. Whenever \<open>attr\<close> returns a string, that string is the pieces emitted
  for the entries of the attribute map (the map \<open>handleAttributes\<close> collects and
  the loop of \<open>joinAttributes\<close> walks), joined by spaces: nothing for an entry
  holding \<open>undefined\<close>, \<open>null\<close> or \<open>false\<close>, the bare name for \<open>true\<close>, and
  \<open>name="value"\<close> for a string, where each of \<open>&\<close>, \<open><\<close>, \<open>>\<close>, \<open>'\<close>, \<open>"\<close> of the
  value is replaced by \<open>&amp;\<close>, \<open>&lt;\<close>, \<open>&gt;\<close>, \<open>&#39;\<close>, \<open>&#34;\<close>. A value so
  replaced holds no raw \<open><\<close>, \<open>>\<close> or quote, and each \<open>&\<close> in it starts an entity.
\<close>

theorem attr_escapes_values:
  assumes "attr vals validNames = Inr out"
  shows "(\<exists>attributes. handleAttributes [] vals validNames = Inr attributes
            \<and> out = joinWith '' '' (concat (map emittedSpec attributes)))
         \<and> (\<forall>s. escape s = concat (map entityOf s) \<and> htmlSafe (escape s))"
proof -
  from assms obtain attributes where a: "handleAttributes [] vals validNames = Inr attributes"
    and j: "joinAttributes attributes = Inr out"
    by (auto simp: attr_def split: sum.splits)
  from j obtain ps where l: "joinLoop attributes [] = Inr ps" and o: "out = joinWith '' '' ps"
    by (auto simp: joinAttributes_def split: sum.splits)
  from joinLoop_emitted[OF l] have "ps = concat (map emittedSpec attributes)" by simp
  with a o show ?thesis by (auto simp: escape_entityOf htmlSafe_escaped)
qed

lemma attr_example:
  "attr (JObj [(''title'', JStr ''a<b''), (''hidden'', JBool True), (''id'', JNull),
               (''open'', JBool False), (''lang'', JUndefined)]) []
     = Inr (''title='' @ [CHR 0x22] @ ''a&lt;b'' @ [CHR 0x22] @ '' hidden'')"
  by (simp add: attr_def joinAttributes_def isValid_def quoted_def
      escapeClass_def escapeMatch_def escapeChars_def)

theorem attr_escapes_values_witness:
  "(\<exists>attributes.
      handleAttributes []
        (JObj [(''title'', JStr ''a<b''), (''hidden'', JBool True), (''id'', JNull),
               (''open'', JBool False), (''lang'', JUndefined)]) [] = Inr attributes
      \<and> ''title='' @ [CHR 0x22] @ ''a&lt;b'' @ [CHR 0x22] @ '' hidden''
          = joinWith '' '' (concat (map emittedSpec attributes)))
   \<and> htmlSafe (escape ''a<b'')"
proof -
  note t = attr_escapes_values[OF attr_example]
  show ?thesis
    by (rule conjI[OF t[THEN conjunct1] t[THEN conjunct2, THEN spec, THEN conjunct2]])
qed

subsection \<open>Deleting a cache entry\<close>

text \<open>
  Claim C4, as the engines have it. \<open>LiquidEngine.deleteCache(f)\<close> removes the
  entry of \<open>f\<close> and leaves the entry of every other filename, and every other
  field, as it was. \<open>PugEngine.deleteCache\<close> takes no filename and empties the
  whole cache: the entry of \<open>f\<close> is gone, and so is every other. \<open>JsxEngine\<close>
  keeps no cache and its \<open>deleteCache\<close> changes nothing.
\<close>

theorem deleteCache_effect:
  "(liquidCache (Liquid_deleteCache le f) f = None
      \<and> (\<forall>g. g \<noteq> f \<longrightarrow> liquidCache (Liquid_deleteCache le f) g = liquidCache le g)
      \<and> Liquid_deleteCache le f = le\<lparr>liquidCache := liquidCache (Liquid_deleteCache le f)\<rparr>)
   \<and> (\<forall>g. pugCache (Pug_deleteCache pe f) g = None)
   \<and> Jsx_deleteCache je f = je"
  by (simp add: Liquid_deleteCache_def Pug_deleteCache_def Jsx_deleteCache_def)

theorem deleteCache_effect_witness:
  "liquidCache (Liquid_deleteCache
       (exampleLiquidEngine [''a.liquid'' \<mapsto> ''A'', ''b.liquid'' \<mapsto> ''B'']) ''a.liquid'')
     ''a.liquid'' = None
   \<and> liquidCache (Liquid_deleteCache
       (exampleLiquidEngine [''a.liquid'' \<mapsto> ''A'', ''b.liquid'' \<mapsto> ''B'']) ''a.liquid'')
     ''b.liquid'' = Some ''B''
   \<and> pugCache (Pug_deleteCache
       (examplePugEngine [''a.pug'' \<mapsto> (\<lambda>d. Inr ''A''), ''b.pug'' \<mapsto> (\<lambda>d. Inr ''B'')])
       ''a.liquid'')
     ''a.pug'' = None
   \<and> Jsx_deleteCache exampleJsxEngine ''a.liquid'' = exampleJsxEngine"
proof -
  let ?le = "exampleLiquidEngine [''a.liquid'' \<mapsto> ''A'', ''b.liquid'' \<mapsto> ''B'']"
  let ?pe = "examplePugEngine [''a.pug'' \<mapsto> (\<lambda>d. Inr ''A''), ''b.pug'' \<mapsto> (\<lambda>d. Inr ''B'')]"
  note t = deleteCache_effect[of ?le "''a.liquid''" ?pe exampleJsxEngine]
  have neq: "''b.liquid'' \<noteq> ''a.liquid''" by simp
  note frame = t[THEN conjunct1, THEN conjunct2, THEN conjunct1, THEN spec, THEN mp, OF neq]
  have "liquidCache (Liquid_deleteCache ?le ''a.liquid'') ''b.liquid''
                 = liquidCache ?le ''b.liquid''"
    by (rule frame)
  moreover have "liquidCache ?le ''b.liquid'' = Some ''B''"
    by (simp add: exampleLiquidEngine_def)
  ultimately show ?thesis using t by simp
qed

text \<open>
  The claim as stated fails for the Pug engine: with entries for \<open>a.pug\<close> and
  \<open>b.pug\<close>, \<open>deleteCache("a.pug")\<close> removes the entry of \<open>b.pug\<close> too.
\<close>

theorem Pug_deleteCache_counterexample:
  "pugCache (examplePugEngine [''a.pug'' \<mapsto> (\<lambda>d. Inr ''A''), ''b.pug'' \<mapsto> (\<lambda>d. Inr ''B'')])
     ''b.pug'' \<noteq> None
   \<and> pugCache (Pug_deleteCache
       (examplePugEngine [''a.pug'' \<mapsto> (\<lambda>d. Inr ''A''), ''b.pug'' \<mapsto> (\<lambda>d. Inr ''B'')]) ''a.pug'')
     ''b.pug'' = None"
  by (simp add: Pug_deleteCache_def examplePugEngine_def)

text \<open>After \<open>deleteCache\<close> the next render of the file compiles the content it is given.\<close>

lemma Liquid_render_after_delete:
  assumes "f \<noteq> []"
  shows "fst (Liquid_renderComponent (Liquid_deleteCache e f) c d (Some f))
           = (case liquid_parse (liquid e) c (liquidPosixJoin e (liquidBasePath e) f) of
                Inl err \<Rightarrow> Inl err
              | Inr t \<Rightarrow> liquid_renderSync (liquid e) t d)"
  using assms
  by (simp add: Liquid_renderComponent_def Liquid_getTemplate_def Liquid_deleteCache_def
      givenFilename_def split: sum.splits)

subsection \<open>Reuse of a compiled template\<close>












subsection \<open>The CMS watch bridge asks for a reload\<close>

text \<open>
  Claim C6. The \<open>beforeUpdate\<close> listener posts a \<open>reload\<close> message exactly when
  the changed-file set holds the site configuration file or the CMS configuration
  file. For every other set it posts nothing, logs nothing and returns
  \<open>undefined\<close>, as it does on every path: nothing in it stops the update.
\<close>

theorem beforeUpdate_reload:
  "(posted (snd (beforeUpdate configFile cmsFile files w)) = posted w @ [Reload]
      \<longleftrightarrow> configFile \<in> files \<or> cmsFile \<in> files)
   \<and> (configFile \<notin> files \<and> cmsFile \<notin> files
      \<longrightarrow> beforeUpdate configFile cmsFile files w = (JUndefined, w))
   \<and> fst (beforeUpdate configFile cmsFile files w) = JUndefined"
  by (simp add: beforeUpdate_def mustReload_def)

theorem beforeUpdate_reload_witness:
  "posted (snd (beforeUpdate ''/_config.ts'' ''/_cms.ts'' {''/index.md'', ''/_cms.ts''}
       \<lparr>posted = [], logged = []\<rparr>)) = [Reload]
   \<and> beforeUpdate ''/_config.ts'' ''/_cms.ts'' {''/index.md''} \<lparr>posted = [], logged = []\<rparr>
       = (JUndefined, \<lparr>posted = [], logged = []\<rparr>)"
  using beforeUpdate_reload
    [of "''/_config.ts''" "''/_cms.ts''" "{''/index.md'', ''/_cms.ts''}"
        "\<lparr>posted = [], logged = []\<rparr>"]
    beforeUpdate_reload
    [of "''/_config.ts''" "''/_cms.ts''" "{''/index.md''}" "\<lparr>posted = [], logged = []\<rparr>"]
  by simp

subsection \<open>The renderer folds the content through the chain\<close>

lemma runChain_foldl:
  "runChain (map (engineNamed formats) names) content context filename
     = foldl (\<lambda>acc name. case engineNamed formats name of
                              None \<Rightarrow> acc
                            | Some e \<Rightarrow> engineRender e acc context filename)
         content names"
proof (induction names arbitrary: content)
  case Nil
  then show ?case by simp
next
  case (Cons name names)
  then show ?case by (cases "engineNamed formats name") simp_all
qed

lemma engineNamed_test:
  "engineNamed testFormats ''foo'' = Some fooEngine"
  "engineNamed testFormats ''upper'' = Some upperEngine"
  by (simp_all add: engineNamed_def testFormats_def)

lemma toUpperCase_contentbar: "toUpperCase ''contentbar'' = ''CONTENTBAR''"
  by code_simp

lemma toUpperCase_content: "toUpperCase ''content'' = ''CONTENT''"
  by code_simp

lemma render_foo_upper:
  "render testFormats ''content'' (testContext (Some (EngineList [''foo'', ''upper'']))) filename
     = ''CONTENTBAR''"
  by (simp add: render_def getEngines_def chainNames_def testContext_def engineNamed_test
      fooEngine_def upperEngine_def toUpperCase_contentbar)

lemma render_upper_foo:
  "render testFormats ''content'' (testContext (Some (EngineList [''upper'', ''foo'']))) filename
     = ''CONTENTbar''"
  by (simp add: render_def getEngines_def chainNames_def testContext_def engineNamed_test
      fooEngine_def upperEngine_def toUpperCase_content)

lemma runChain_foldl_entries:
  "runChain chain content context filename
     = foldl (\<lambda>acc entry. case entry of
                               None \<Rightarrow> acc
                             | Some e \<Rightarrow> engineRender e acc context filename)
         content chain"
proof (induction chain arbitrary: content)
  case Nil
  then show ?case by simp
next
  case (Cons entry chain)
  then show ?case by (cases entry) simp_all
qed

text \<open>
  Claim C1. \<open>render\<close> is the left fold of the content through the resolved chain,
  in order: each step takes the output of the step before as its content, every
  step gets the same context and filename, and an entry with no engine leaves the
  content as it is. When the context gives the chain of engine names
  \<open>chainNames te\<close>, this is the fold through the engines the names resolve to,
  where a name with no registered engine is the identity step. With the engines of
  the test, the chain \<open>["foo", "upper"]\<close> over \<open>"content"\<close> in the context
  \<open>{foo: "bar"}\<close> gives \<open>"CONTENTBAR"\<close>, and \<open>["upper", "foo"]\<close> gives
  \<open>"CONTENTbar"\<close>.
\<close>

theorem render_is_left_fold:
  "render formats content ctx filename
     = foldl (\<lambda>acc entry. case entry of
                               None \<Rightarrow> acc
                             | Some e \<Rightarrow> engineRender e acc ctx filename)
         content (getEngines formats ctx filename)
   \<and> (templateEngine ctx = Some te
      \<longrightarrow> render formats content ctx filename
          = foldl (\<lambda>acc name. case engineNamed formats name of
                                   None \<Rightarrow> acc
                                 | Some e \<Rightarrow> engineRender e acc ctx filename)
              content (chainNames te))
   \<and> render testFormats ''content''
       (testContext (Some (EngineList [''foo'', ''upper'']))) filename = ''CONTENTBAR''
   \<and> render testFormats ''content''
       (testContext (Some (EngineList [''upper'', ''foo'']))) filename = ''CONTENTbar''"
proof (intro conjI impI)
  show "render formats content ctx filename
     = foldl (\<lambda>acc entry. case entry of
                               None \<Rightarrow> acc
                             | Some e \<Rightarrow> engineRender e acc ctx filename)
         content (getEngines formats ctx filename)"
    by (simp add: render_def runChain_foldl_entries)
next
  assume "templateEngine ctx = Some te"
  then show "render formats content ctx filename
          = foldl (\<lambda>acc name. case engineNamed formats name of
                                   None \<Rightarrow> acc
                                 | Some e \<Rightarrow> engineRender e acc ctx filename)
              content (chainNames te)"
    by (simp add: render_def getEngines_def runChain_foldl)
next
  show "render testFormats ''content''
       (testContext (Some (EngineList [''foo'', ''upper'']))) filename = ''CONTENTBAR''"
    by (rule render_foo_upper)
next
  show "render testFormats ''content''
       (testContext (Some (EngineList [''upper'', ''foo'']))) filename = ''CONTENTbar''"
    by (rule render_upper_foo)
qed

lemma engineNamed_nothing: "engineNamed testFormats ''nothing'' = None"
  by (simp add: engineNamed_def testFormats_def)

theorem render_is_left_fold_witness:
  "render testFormats ''content''
       (testContext (Some (EngineList [''foo'', ''nothing'', ''upper''])))  ''foo.not_found''
     = ''CONTENTBAR''"
proof -
  let ?ctx = "testContext (Some (EngineList [''foo'', ''nothing'', ''upper'']))"
  have h: "templateEngine ?ctx = Some (EngineList [''foo'', ''nothing'', ''upper''])"
    by (simp add: testContext_def)
  note t = render_is_left_fold
    [where formats = testFormats and content = "''content''" and ctx = ?ctx
       and filename = "''foo.not_found''" and te = "EngineList [''foo'', ''nothing'', ''upper'']"]
  note r = t[THEN conjunct2, THEN conjunct1, THEN mp, OF h]
  show ?thesis
    unfolding r
    by (simp add: chainNames_def engineNamed_test engineNamed_nothing fooEngine_def
        upperEngine_def testContext_def toUpperCase_contentbar)
qed

subsection \<open>Passthrough without an engine\<close>

text \<open>
  Claim C2. When the context has no \<open>templateEngine\<close> entry and the registry has
  no default engine for the filename, the chain is empty and \<open>render\<close> returns the
  content unchanged.
\<close>

theorem render_passthrough:
  assumes "templateEngine context = None"
    and "defaultEngineFor formats filename = None"
  shows "getEngines formats context filename = []
         \<and> render formats content context filename = content"
  using assms by (simp add: render_def getEngines_def)

lemma no_default_engine_not_found: "defaultEngineFor testFormats ''foo.not_found'' = None"
  by (simp add: defaultEngineFor_def testFormats_def endsWith_def)

theorem render_passthrough_witness:
  "render testFormats ''content'' (testContext None) ''foo.not_found'' = ''content''"
proof -
  have h: "templateEngine (testContext None) = None" by (simp add: testContext_def)
  show ?thesis
    by (rule render_passthrough[OF h no_default_engine_not_found, THEN conjunct2])
qed

subsection \<open>A delimited string and the list of its names\<close>

lemma splitComma_nonempty: "splitComma s \<noteq> []"
  by (induction s) simp_all










subsection \<open>Dates\<close>

lemma parse_2020_01_01:
  "parseStandard (punctuate ''2020-01-01'') = Some (1577836800, LocalZone)"
  by code_simp

lemma parse_2021_local:
  "parseStandard (punctuate ''2021-01-01 03:10:10'') = Some (1609470610, LocalZone)"
  by code_simp

lemma parse_2021_utc:
  "parseStandard (punctuate ''2021-01-01T03:10:10Z'') = Some (1609470610, UtcOffset 0)"
  by code_simp

lemma parse_2021_compact_utc:
  "parseStandard (punctuate ''20210101T031010Z'') = Some (1609470610, UtcOffset 0)"
  by code_simp

lemma parse_2021_offset:
  "parseStandard (punctuate ''2021-01-01T03:10:10-0700'')
     = Some (1609470610, UtcOffset (- 25200))"
  by code_simp

lemma fields_2020_01_01: "civilFields 1577836800 = (2020, 0, 1, 0, 0, 0)"
  by code_simp

lemma fields_2021_01_01: "civilFields 1609470610 = (2021, 0, 1, 3, 10, 10)"
  by code_simp

lemma punctuate_compact_date:
  assumes "length y = 4" "length m = 2" "length d = 2"
    and "list_all isDigit (y @ m @ d)"
  shows "punctuate (y @ m @ d) = y @ ''-'' @ m @ ''-'' @ d"
  using assms by (simp add: punctuate_def slice_def)

lemma punctuate_punctuated_date:
  assumes "length y = 4" "length m = 2" "length d = 2"
  shows "punctuate (y @ ''-'' @ m @ ''-'' @ d) = y @ ''-'' @ m @ ''-'' @ d"
  using assms by (simp add: punctuate_def)

text \<open>
  Claim C5, for every local offset \<open>tz\<close>. \<open>"2020-01-01"\<close> parses to the instant
  whose local fields are year 2020, month index 0, day 1, 00:00:00;
  \<open>"2021-01-01 03:10:10"\<close> to the one whose local fields are 2021, 0, 1, 03:10:10;
  \<open>"2021-01-01T03:10:10Z"\<close> and \<open>"20210101T031010Z"\<close> to the same instant;
  \<open>"2021-01-01T03:10:10-0700"\<close> to the instant 7 hours after it. A compact date
  of eight digits is rewritten to its punctuated form before it is parsed, so both
  parse alike, \<open>"20210101"\<close> and \<open>"2021-01-01"\<close> among them.
\<close>

theorem parseDate_forms:
  "map_option (dateFields tz) (parseDate tz ''2020-01-01'') = Some (2020, 0, 1, 0, 0, 0)
   \<and> map_option (dateFields tz) (parseDate tz ''2021-01-01 03:10:10'')
       = Some (2021, 0, 1, 3, 10, 10)
   \<and> parseDate tz ''2021-01-01T03:10:10Z'' = Some 1609470610
   \<and> parseDate tz ''20210101T031010Z'' = parseDate tz ''2021-01-01T03:10:10Z''
   \<and> parseDate tz ''2021-01-01T03:10:10-0700'' = Some (1609470610 + 7 * 3600)
   \<and> (length y = 4 \<and> length m = 2 \<and> length d = 2 \<and> list_all isDigit (y @ m @ d)
      \<longrightarrow> punctuate (y @ m @ d) = y @ ''-'' @ m @ ''-'' @ d
        \<and> parseDate tz (y @ m @ d) = parseDate tz (y @ ''-'' @ m @ ''-'' @ d))
   \<and> parseDate tz ''20210101'' = parseDate tz ''2021-01-01''"
proof (intro conjI impI)
  show "map_option (dateFields tz) (parseDate tz ''2020-01-01'') = Some (2020, 0, 1, 0, 0, 0)"
    by (simp add: parseDate_def parse_2020_01_01 toInstant_def dateFields_def fields_2020_01_01)
  show "map_option (dateFields tz) (parseDate tz ''2021-01-01 03:10:10'')
       = Some (2021, 0, 1, 3, 10, 10)"
    by (simp add: parseDate_def parse_2021_local toInstant_def dateFields_def fields_2021_01_01)
  show "parseDate tz ''2021-01-01T03:10:10Z'' = Some 1609470610"
    by (simp add: parseDate_def parse_2021_utc toInstant_def)
  show "parseDate tz ''20210101T031010Z'' = parseDate tz ''2021-01-01T03:10:10Z''"
    by (simp add: parseDate_def parse_2021_utc parse_2021_compact_utc)
  show "parseDate tz ''2021-01-01T03:10:10-0700'' = Some (1609470610 + 7 * 3600)"
    by (simp add: parseDate_def parse_2021_offset toInstant_def)
  show "parseDate tz ''20210101'' = parseDate tz ''2021-01-01''"
    using punctuate_compact_date[of "''2021''" "''01''" "''01''"]
      punctuate_punctuated_date[of "''2021''" "''01''" "''01''"]
    by (simp add: parseDate_def isDigit_def)
next
  assume a: "length y = 4 \<and> length m = 2 \<and> length d = 2 \<and> list_all isDigit (y @ m @ d)"
  then show "punctuate (y @ m @ d) = y @ ''-'' @ m @ ''-'' @ d"
    using punctuate_compact_date[of y m d] by simp
  from a show "parseDate tz (y @ m @ d) = parseDate tz (y @ ''-'' @ m @ ''-'' @ d)"
    using punctuate_compact_date[of y m d] punctuate_punctuated_date[of y m d]
    by (simp add: parseDate_def)
qed

theorem parseDate_forms_witness:
  "punctuate ''20240229'' = ''2024-02-29''
   \<and> parseDate 3600 ''20240229'' = parseDate 3600 ''2024-02-29''
   \<and> map_option (dateFields 3600) (parseDate 3600 ''2020-01-01'') = Some (2020, 0, 1, 0, 0, 0)"
proof -
  note t = parseDate_forms[where tz = 3600 and y = "''2024''" and m = "''02''" and d = "''29''"]
  have h: "length ''2024'' = 4 \<and> length ''02'' = 2 \<and> length ''29'' = 2
             \<and> list_all isDigit (''2024'' @ ''02'' @ ''29'')"
    by (simp add: isDigit_def)
  note c = t[THEN conjunct2, THEN conjunct2, THEN conjunct2, THEN conjunct2, THEN conjunct2,
             THEN conjunct1, THEN mp, OF h]
  from c t[THEN conjunct1] show ?thesis by simp
qed

end
